theory Spec2Isabelle
  imports Main
begin

section \<open>Values of the program\<close>

text \<open>
  A Python \<open>str\<close> is a \<open>string\<close>: a list of characters with code points below 256.
  A value produced by \<open>json.loads\<close> is a \<open>json\<close>: \<open>None\<close>, a \<open>bool\<close>, an \<open>int\<close>,
  a \<open>str\<close>, a \<open>list\<close> or a \<open>dict\<close>. A \<open>dict\<close> is an association list in insertion
  order; a lookup takes the first entry of a key (the keys of a Python \<open>dict\<close> are
  distinct). JSON numbers with a fraction or an exponent (Python \<open>float\<close>) are not part
  of the model.
\<close>

datatype json =
    JNull
  | JBool bool
  | JInt int
  | JStr string
  | JList "json list"
  | JObj "(string \<times> json) list"

text \<open>The exceptions the analyzer's guarded block can meet.\<close>

datatype exn =
    APIError
  | IndexError
  | TypeError
  | JSONDecodeError
  | AttributeError

text \<open>Python's truth value of a parsed JSON value, as \<open>or\<close> tests it.\<close>

fun truthy :: "json \<Rightarrow> bool" where
  "truthy JNull = False"
| "truthy (JBool b) = b"
| "truthy (JInt i) = (i \<noteq> 0)"
| "truthy (JStr s) = (s \<noteq> [])"
| "truthy (JList xs) = (xs \<noteq> [])"
| "truthy (JObj kvs) = (kvs \<noteq> [])"

text \<open>
  \<open>parsed.get(key)\<close> and \<open>parsed.get(key, default)\<close>. Only a \<open>dict\<close> has the method:
  on every other value the attribute lookup raises \<open>AttributeError\<close>.
\<close>

definition dict_get_default :: "json \<Rightarrow> string \<Rightarrow> json \<Rightarrow> exn + json" where
  "dict_get_default d key dflt =
     (case d of
        JObj kvs \<Rightarrow> (case map_of kvs key of None \<Rightarrow> Inr dflt | Some v \<Rightarrow> Inr v)
      | _ \<Rightarrow> Inl AttributeError)"

definition dict_get :: "json \<Rightarrow> string \<Rightarrow> exn + json" where
  "dict_get d key = dict_get_default d key JNull"

text \<open>Sequencing of steps that may raise: the first exception ends the block.\<close>

definition bind_exn :: "exn + 'a \<Rightarrow> ('a \<Rightarrow> exn + 'b) \<Rightarrow> exn + 'b" where
  "bind_exn m f = (case m of Inl e \<Rightarrow> Inl e | Inr x \<Rightarrow> f x)"

section \<open>Strings: \<open>lower\<close> and \<open>in\<close>\<close>

text \<open>
  \<open>str.lower\<close> on code points below 256: the letters A to Z and the Latin-1 capitals
  (0xC0 to 0xDE, the multiplication sign 0xD7 apart) move up by 32.
\<close>

definition lower_char :: "char \<Rightarrow> char" where
  "lower_char c =
     (let n = (of_char c :: nat) in
      if (65 \<le> n \<and> n \<le> 90) \<or> (192 \<le> n \<and> n \<le> 222 \<and> n \<noteq> 215)
      then char_of (n + 32) else c)"

definition lower :: "string \<Rightarrow> string" where
  "lower s = map lower_char s"

text \<open>\<open>sub in s\<close> for strings: \<open>sub\<close> occurs in \<open>s\<close> as a contiguous block.\<close>

fun contains :: "string \<Rightarrow> string \<Rightarrow> bool" where
  "contains sub [] = (sub = [])"
| "contains sub (c # cs) = (take (length sub) (c # cs) = sub \<or> contains sub cs)"

section \<open>Task classification\<close>

definition detect_task_type :: "string \<Rightarrow> string" where
  "detect_task_type prompt =
     (let prompt_lower = lower prompt in
      if contains ''task 1'' prompt_lower \<or> contains ''risk classification'' prompt_lower
      then ''risk_classification''
      else if contains ''task 2'' prompt_lower \<or> contains ''business summary'' prompt_lower
      then ''business_summary''
      else if contains ''task 3'' prompt_lower \<or> contains ''consistency'' prompt_lower
      then ''consistency_check''
      else if contains ''risk factor'' prompt_lower \<or> contains ''section 1a'' prompt_lower
      then ''risk_classification''
      else if contains ''business'' prompt_lower \<and> contains ''section 1'' prompt_lower
      then ''business_summary''
      else ''risk_classification'')"

text \<open>
  The specification's reading of the classifier: an ordered table of rules, each a test
  on the lower-cased text with its task type; the first rule whose test succeeds gives
  the result, and the default applies when none does.
\<close>

definition classify_rules :: "((string \<Rightarrow> bool) \<times> string) list" where
  "classify_rules =
     [(\<lambda>t. contains ''task 1'' t \<or> contains ''risk classification'' t, ''risk_classification''),
      (\<lambda>t. contains ''task 2'' t \<or> contains ''business summary'' t, ''business_summary''),
      (\<lambda>t. contains ''task 3'' t \<or> contains ''consistency'' t, ''consistency_check''),
      (\<lambda>t. contains ''risk factor'' t \<or> contains ''section 1a'' t, ''risk_classification''),
      (\<lambda>t. contains ''business'' t \<and> contains ''section 1'' t, ''business_summary'')]"

definition classify_spec :: "string \<Rightarrow> string" where
  "classify_spec text =
     (case List.find (\<lambda>rule. fst rule (lower text)) classify_rules of
        Some rule \<Rightarrow> snd rule
      | None \<Rightarrow> ''risk_classification'')"

section \<open>System prompts\<close>

text \<open>The three instruction templates, character for character.\<close>

definition risk_classification_prompt :: string where
  \<open>risk_classification_prompt =
     ''You are a financial risk analyst. Analyze the provided 10-K Risk Factors section.\<newline>''
     @ ''\<newline>''
     @ ''Classify the risks into these predefined categories (only use these exact names):\<newline>''
     @ ''- Market Risk\<newline>''
     @ ''- Operational Risk\<newline>''
     @ ''- Financial Risk\<newline>''
     @ ''- Legal/Regulatory Risk\<newline>''
     @ ''- Technology Risk\<newline>''
     @ ''- Cybersecurity Risk\<newline>''
     @ ''- Competition Risk\<newline>''
     @ ''- Supply Chain Risk\<newline>''
     @ ''- Human Capital/Talent Risk\<newline>''
     @ ''- Environmental/Climate Risk\<newline>''
     @ ''- COVID-19/Pandemic Risk\<newline>''
     @ ''- Geopolitical Risk\<newline>''
     @ ''\<newline>''
     @ ''Return a JSON object with:\<newline>''
     @ ''{\<newline>''
     @ ''  "task": "risk_classification",\<newline>''
     @ ''  "risk_classification": ["Category 1", "Category 2", ...]\<newline>''
     @ ''}\<newline>''
     @ ''\<newline>''
     @ ''Only include categories that are clearly mentioned in the text. Be precise.''\<close>

definition business_summary_prompt :: string where
  \<open>business_summary_prompt =
     ''You are a business analyst. Analyze the provided 10-K Business section.\<newline>''
     @ ''\<newline>''
     @ ''Extract key information about:\<newline>''
     @ ''1. Industry/sector the company operates in\<newline>''
     @ ''2. Main products or services offered\<newline>''
     @ ''3. Geographic markets served\<newline>''
     @ ''\<newline>''
     @ ''Return a JSON object with:\<newline>''
     @ ''{\<newline>''
     @ ''  "task": "business_summary",\<newline>''
     @ ''  "business_summary": {\<newline>''
     @ ''    "industry": "Detailed industry description",\<newline>''
     @ ''    "products": "Main products and services",\<newline>''
     @ ''    "geography": "Geographic markets"\<newline>''
     @ ''  }\<newline>''
     @ ''}\<newline>''
     @ ''\<newline>''
     @ ''Be specific and detailed in your responses.''\<close>

definition consistency_check_prompt :: string where
  \<open>consistency_check_prompt =
     ''You are a financial document analyst. You are given:\<newline>''
     @ ''1. A list of risks from Section 1A\<newline>''
     @ ''2. The MD&A Section 7 text\<newline>''
     @ ''\<newline>''
     @ ''Identify which of the listed risks are actually discussed in Section 7.\<newline>''
     @ ''\<newline>''
     @ ''Return a JSON object with:\<newline>''
     @ ''{\<newline>''
     @ ''  "task": "consistency_check",\<newline>''
     @ ''  "consistency_check": ["risk1", "risk2", ...]\<newline>''
     @ ''}\<newline>''
     @ ''\<newline>''
     @ ''Only include risks that are clearly discussed in Section 7.''\<close>

definition get_system_prompt :: "string \<Rightarrow> string" where
  "get_system_prompt task_type =
     (if task_type = ''risk_classification'' then risk_classification_prompt
      else if task_type = ''business_summary'' then business_summary_prompt
      else consistency_check_prompt)"

text \<open>The twelve category names that the risk classification prompt lists.\<close>

definition risk_categories :: "string list" where
  "risk_categories =
     [''Market Risk'', ''Operational Risk'', ''Financial Risk'', ''Legal/Regulatory Risk'',
      ''Technology Risk'', ''Cybersecurity Risk'', ''Competition Risk'', ''Supply Chain Risk'',
      ''Human Capital/Talent Risk'', ''Environmental/Climate Risk'',
      ''COVID-19/Pandemic Risk'', ''Geopolitical Risk'']"

text \<open>
  The strict schema of a risk classification payload: a list of strings, each one of the
  twelve names.
\<close>

fun is_category :: "json \<Rightarrow> bool" where
  "is_category (JStr s) = (s \<in> set risk_categories)"
| "is_category _ = False"

fun risk_schema :: "json \<Rightarrow> bool" where
  "risk_schema (JList xs) = list_all is_category xs"
| "risk_schema _ = False"

section \<open>Normalization of the parsed response\<close>

text \<open>
  \<open>a or b\<close> where evaluating \<open>a\<close> may raise: the value of \<open>a\<close> when it is truthy,
  otherwise \<open>b\<close>, which is not evaluated before.
\<close>

definition or_else :: "exn + json \<Rightarrow> exn + json \<Rightarrow> exn + json" where
  "or_else a b = (case a of Inl e \<Rightarrow> Inl e | Inr v \<Rightarrow> if truthy v then Inr v else b)"

text \<open>\<open>result[key] = value\<close>: replaces the value of a key in place, or appends the key.\<close>

fun dict_set :: "string \<Rightarrow> json \<Rightarrow> (string \<times> json) list \<Rightarrow> (string \<times> json) list" where
  "dict_set key v [] = [(key, v)]"
| "dict_set key v ((k, w) # kvs) =
     (if k = key then (key, v) # kvs else (k, w) # dict_set key v kvs)"

definition format_response :: "json \<Rightarrow> string \<Rightarrow> exn + json" where
  "format_response parsed task_type =
     (let result = [(''task'', JStr task_type)] in
      if task_type = ''risk_classification'' then
        bind_exn
          (or_else (dict_get parsed ''risk_classification'')
            (or_else (dict_get parsed ''categories'')
              (or_else (dict_get parsed ''risk_categories'')
                (Inr (JList [])))))
          (\<lambda>categories. Inr (JObj (dict_set ''risk_classification'' categories result)))
      else if task_type = ''business_summary'' then
        bind_exn (or_else (dict_get parsed ''business_summary'') (Inr parsed)) (\<lambda>summary.
        bind_exn (dict_get_default summary ''industry'' (JStr ''N/A'')) (\<lambda>industry.
        bind_exn (dict_get_default summary ''products'' (JStr ''N/A'')) (\<lambda>products.
        bind_exn (dict_get_default summary ''geography'' (JStr ''N/A'')) (\<lambda>geography.
          Inr (JObj (dict_set ''business_summary''
                 (JObj [(''industry'', industry), (''products'', products),
                        (''geography'', geography)])
                 result))))))
      else
        bind_exn
          (or_else (dict_get parsed ''consistency_check'')
            (or_else (dict_get parsed ''discussed_risks'')
              (or_else (dict_get parsed ''consistent_risks'')
                (Inr (JList [])))))
          (\<lambda>risks. Inr (JObj (dict_set ''consistency_check'' risks result))))"

definition get_fallback_response :: "string \<Rightarrow> json" where
  "get_fallback_response task_type =
     (if task_type = ''risk_classification'' then
        JObj [(''task'', JStr ''risk_classification''),
              (''risk_classification'', JList [JStr ''Market Risk'', JStr ''Operational Risk''])]
      else if task_type = ''business_summary'' then
        JObj [(''task'', JStr ''business_summary''),
              (''business_summary'',
                 JObj [(''industry'', JStr ''Unable to determine''),
                       (''products'', JStr ''Unable to determine''),
                       (''geography'', JStr ''Unable to determine'')])]
      else
        JObj [(''task'', JStr ''consistency_check''),
              (''consistency_check'', JList [])])"

text \<open>
  The specification's readings of the payload selection, for comparison with the code:
  the value of the first candidate key that is present, and the value of the first
  candidate key whose value is truthy; the empty list when there is none.
\<close>

definition spec_first_present :: "string list \<Rightarrow> (string \<times> json) list \<Rightarrow> json" where
  "spec_first_present keys kvs =
     (case List.find (\<lambda>k. map_of kvs k \<noteq> None) keys of
        Some k \<Rightarrow> the (map_of kvs k)
      | None \<Rightarrow> JList [])"

definition first_truthy :: "string list \<Rightarrow> (string \<times> json) list \<Rightarrow> json" where
  "first_truthy keys kvs =
     (case List.find (\<lambda>k. case map_of kvs k of None \<Rightarrow> False | Some v \<Rightarrow> truthy v) keys of
        Some k \<Rightarrow> the (map_of kvs k)
      | None \<Rightarrow> JList [])"

text \<open>
  The business summary record read from an object: each of the three fields, or \<open>N/A\<close>
  where the object lacks it.
\<close>

definition read_fields :: "(string \<times> json) list \<Rightarrow> json" where
  "read_fields fs =
     JObj [(''industry'', case map_of fs ''industry'' of None \<Rightarrow> JStr ''N/A'' | Some v \<Rightarrow> v),
           (''products'', case map_of fs ''products'' of None \<Rightarrow> JStr ''N/A'' | Some v \<Rightarrow> v),
           (''geography'', case map_of fs ''geography'' of None \<Rightarrow> JStr ''N/A'' | Some v \<Rightarrow> v)]"

text \<open>
  The value the summary is read from. In the specification's words it is the nested
  \<open>business_summary\<close> value when that key is present, and the top-level object otherwise.
  The second definition asks for a truthy nested value instead.
\<close>

definition spec_summary_source :: "(string \<times> json) list \<Rightarrow> json" where
  "spec_summary_source kvs =
     (case map_of kvs ''business_summary'' of None \<Rightarrow> JObj kvs | Some nested \<Rightarrow> nested)"

definition summary_source :: "(string \<times> json) list \<Rightarrow> json" where
  "summary_source kvs =
     (case map_of kvs ''business_summary'' of
        None \<Rightarrow> JObj kvs
      | Some nested \<Rightarrow> if truthy nested then nested else JObj kvs)"

definition task_types :: "string list" where
  "task_types = [''risk_classification'', ''business_summary'', ''consistency_check'']"

section \<open>Serialization\<close>

text \<open>
  \<open>json.dumps(value)\<close> and \<open>json.dumps(value, indent=n)\<close> of the Python standard library,
  with its defaults otherwise. Without \<open>indent\<close> the items of a list or dict stand on one
  line, separated by a comma and a space. With \<open>indent=n\<close> every item stands on a line of
  its own, \<open>n\<close> spaces deeper per nesting level, and the separator is a comma alone. An
  empty list or dict is \<open>[]\<close> or \<open>{}\<close> in both cases. Strings are escaped to ASCII.
\<close>

definition hex_digit :: "nat \<Rightarrow> char" where
  "hex_digit d = (if d < 10 then char_of (48 + d) else char_of (87 + d))"

definition escape_char :: "char \<Rightarrow> string" where
  "escape_char c =
     (let n = (of_char c :: nat) in
      if n = 34 then [CHR 0x5C, CHR 0x22]
      else if n = 92 then [CHR 0x5C, CHR 0x5C]
      else if n = 10 then [CHR 0x5C, CHR ''n'']
      else if n = 13 then [CHR 0x5C, CHR ''r'']
      else if n = 9 then [CHR 0x5C, CHR ''t'']
      else if n = 8 then [CHR 0x5C, CHR ''b'']
      else if n = 12 then [CHR 0x5C, CHR ''f'']
      else if n < 32 \<or> 126 < n
      then [CHR 0x5C, CHR ''u'', CHR ''0'', CHR ''0'', hex_digit (n div 16), hex_digit (n mod 16)]
      else [c])"

definition encode_str :: "string \<Rightarrow> string" where
  "encode_str s = [CHR 0x22] @ concat (map escape_char s) @ [CHR 0x22]"

function show_nat :: "nat \<Rightarrow> string" where
  "show_nat n =
     (if n < 10 then [char_of (48 + n)] else show_nat (n div 10) @ [char_of (48 + n mod 10)])"
  by pat_completeness auto
termination
  by (relation "measure (\<lambda>n. n)") auto

definition show_int :: "int \<Rightarrow> string" where
  "show_int i = (if i < 0 then CHR ''-'' # show_nat (nat (- i)) else show_nat (nat i))"

fun join :: "string \<Rightarrow> string list \<Rightarrow> string" where
  "join sep [] = []"
| "join sep [x] = x"
| "join sep (x # y # ys) = x @ sep @ join sep (y # ys)"

definition newline_indent :: "nat option \<Rightarrow> nat \<Rightarrow> string" where
  "newline_indent indent level =
     (case indent of None \<Rightarrow> [] | Some n \<Rightarrow> CHR 0x0A # replicate (n * level) CHR '' '')"

definition item_separator :: "nat option \<Rightarrow> nat \<Rightarrow> string" where
  "item_separator indent level =
     (case indent of None \<Rightarrow> '', '' | Some n \<Rightarrow> '','' @ newline_indent indent level)"

fun dumps_at :: "nat option \<Rightarrow> nat \<Rightarrow> json \<Rightarrow> string" where
  "dumps_at indent level JNull = ''null''"
| "dumps_at indent level (JBool b) = (if b then ''true'' else ''false'')"
| "dumps_at indent level (JInt i) = show_int i"
| "dumps_at indent level (JStr s) = encode_str s"
| "dumps_at indent level (JList xs) =
     (if xs = [] then ''[]''
      else ''['' @ newline_indent indent (level + 1)
           @ join (item_separator indent (level + 1))
                (map (dumps_at indent (level + 1)) xs)
           @ newline_indent indent level @ '']'')"
| "dumps_at indent level (JObj kvs) =
     (if kvs = [] then ''{}''
      else ''{'' @ newline_indent indent (level + 1)
           @ join (item_separator indent (level + 1))
                (map (\<lambda>(k, v). encode_str k @ '': '' @ dumps_at indent (level + 1) v) kvs)
           @ newline_indent indent level @ ''}'')"

definition dumps :: "nat option \<Rightarrow> json \<Rightarrow> string" where
  "dumps indent v = dumps_at indent 0 v"

section \<open>The analyzer\<close>

text \<open>
  The generation service is a parameter: from the system prompt and the user prompt, one
  call either raises or returns the \<open>content\<close> of each of its \<open>choices\<close>, a string or
  \<open>None\<close>. \<open>json.loads\<close> is a parameter too: a text parses to a value or raises.
\<close>

type_synonym service = "string \<Rightarrow> string \<Rightarrow> exn + string option list"

type_synonym parser = "string \<Rightarrow> exn + json"

text \<open>The guarded block of \<open>analyze\<close>: every exception is a result \<open>Inl\<close>.\<close>

definition analyze_attempt :: "parser \<Rightarrow> service \<Rightarrow> string \<Rightarrow> string \<Rightarrow> exn + string" where
  "analyze_attempt loads create prompt task_type =
     bind_exn (create (get_system_prompt task_type) prompt) (\<lambda>choices.
     bind_exn (case choices of [] \<Rightarrow> Inl IndexError | content # _ \<Rightarrow> Inr content) (\<lambda>result.
     bind_exn (case result of None \<Rightarrow> Inl TypeError | Some text \<Rightarrow> loads text) (\<lambda>parsed.
     bind_exn (format_response parsed task_type) (\<lambda>formatted.
       Inr (dumps (Some 2) formatted)))))"

definition analyze :: "parser \<Rightarrow> service \<Rightarrow> string \<Rightarrow> exn + string" where
  "analyze loads create prompt =
     (let task_type = detect_task_type prompt in
      case analyze_attempt loads create prompt task_type of
        Inr text \<Rightarrow> Inr text
      | Inl e \<Rightarrow> Inr (dumps None (get_fallback_response task_type)))"

section \<open>The executor\<close>

text \<open>
  The task states of the agent protocol, a task as the executor reads it, and the events
  it puts on the queue. A message is the list of its text parts.
\<close>

datatype task_state =
    Submitted
  | Working
  | InputRequired
  | Completed
  | Canceled
  | Failed
  | Rejected
  | AuthRequired
  | Unknown

record task =
  task_id :: string
  context_id :: string
  state :: task_state

record request_context =
  message :: "string list option"
  current_task :: "task option"

datatype event =
    TaskEvent task
  | StatusUpdate string task_state "string option" bool
  | ArtifactUpdate string string string

definition TERMINAL_STATES :: "task_state set" where
  "TERMINAL_STATES = {Completed, Canceled, Failed, Rejected}"

definition get_message_text :: "string list \<Rightarrow> string" where
  "get_message_text parts = join [CHR 0x0A] parts"

definition exn_text :: "exn \<Rightarrow> string" where
  "exn_text e =
     (case e of APIError \<Rightarrow> ''APIError'' | IndexError \<Rightarrow> ''IndexError''
      | TypeError \<Rightarrow> ''TypeError'' | JSONDecodeError \<Rightarrow> ''JSONDecodeError''
      | AttributeError \<Rightarrow> ''AttributeError'')"

text \<open>
  The work on a task that is not terminal: the two status updates, then the artifact and
  the completion, or the failure when the analysis raised.
\<close>

definition process :: "parser \<Rightarrow> service \<Rightarrow> string list \<Rightarrow> task \<Rightarrow> event list \<Rightarrow> event list" where
  "process loads create msg t event_queue =
     (let started = event_queue
            @ [StatusUpdate (task_id t) Working None False,
               StatusUpdate (task_id t) Working (Some ''Analyzing financial document...'') False]
      in case analyze loads create (get_message_text msg) of
           Inr result \<Rightarrow>
             started @ [ArtifactUpdate (task_id t) ''FinancialAnalysis'' result,
                        StatusUpdate (task_id t) Completed None True]
         | Inl e \<Rightarrow>
             started @ [StatusUpdate (task_id t) Failed
                          (Some (''Analysis error: '' @ exn_text e)) True])"

text \<open>
  \<open>execute\<close> returns the event queue as it leaves it. \<open>fresh\<close> is the task that
  \<open>new_task\<close> makes for a message without one, in the state \<open>Submitted\<close>.
\<close>

definition execute ::
  "parser \<Rightarrow> service \<Rightarrow> task \<Rightarrow> request_context \<Rightarrow> event list \<Rightarrow> event list" where
  "execute loads create fresh context event_queue =
     (case message context of
        None \<Rightarrow> event_queue
      | Some msg \<Rightarrow>
          (case current_task context of
             Some t \<Rightarrow>
               if state t \<in> TERMINAL_STATES then event_queue
               else process loads create msg t event_queue
           | None \<Rightarrow>
               (let t = fresh\<lparr>state := Submitted\<rparr>
                in process loads create msg t (event_queue @ [TaskEvent t]))))"

section \<open>Properties of the building blocks\<close>

lemma contains_iff: "contains sub s \<longleftrightarrow> (\<exists>ps ss. s = ps @ sub @ ss)"
proof (induction s)
  case Nil
  then show ?case by auto
next
  case (Cons c cs)
  have here: "take (length sub) (c # cs) = sub \<longleftrightarrow> (\<exists>ss. c # cs = sub @ ss)"
    by (metis append_eq_conv_conj)
  have split: "(\<exists>ps ss. c # cs = ps @ sub @ ss) \<longleftrightarrow>
      (\<exists>ss. c # cs = sub @ ss) \<or> (\<exists>ps ss. cs = ps @ sub @ ss)"
  proof
    assume "\<exists>ps ss. c # cs = ps @ sub @ ss"
    then obtain ps ss where e: "c # cs = ps @ sub @ ss" by blast
    show "(\<exists>ss. c # cs = sub @ ss) \<or> (\<exists>ps ss. cs = ps @ sub @ ss)"
    proof (cases ps)
      case Nil
      with e show ?thesis by auto
    next
      case (Cons p ps')
      with e have "cs = ps' @ sub @ ss" by simp
      then show ?thesis by blast
    qed
  next
    assume "(\<exists>ss. c # cs = sub @ ss) \<or> (\<exists>ps ss. cs = ps @ sub @ ss)"
    then show "\<exists>ps ss. c # cs = ps @ sub @ ss"
    proof
      assume "\<exists>ss. c # cs = sub @ ss"
      then obtain ss where "c # cs = [] @ sub @ ss" by auto
      then show ?thesis by blast
    next
      assume "\<exists>ps ss. cs = ps @ sub @ ss"
      then obtain ps ss where "cs = ps @ sub @ ss" by blast
      then have "c # cs = (c # ps) @ sub @ ss" by simp
      then show ?thesis by blast
    qed
  qed
  from here split Cons.IH show ?case by simp
qed

lemma lower_char_idem: "lower_char (lower_char c) = lower_char c"
proof -
  have "(of_char c :: nat) < 256" by simp
  then show ?thesis unfolding lower_char_def Let_def by auto
qed

lemma lower_idem: "lower (lower s) = lower s"
  by (simp add: lower_def lower_char_idem)

lemma detect_eq_spec: "detect_task_type text = classify_spec text"
  by (simp add: detect_task_type_def classify_spec_def classify_rules_def Let_def)

lemma classify_spec_lowest:
  assumes "i < length classify_rules"
    and "fst (classify_rules ! i) (lower text)"
    and "\<forall>j<i. \<not> fst (classify_rules ! j) (lower text)"
  shows "classify_spec text = snd (classify_rules ! i)"
proof -
  have "List.find (\<lambda>rule. fst rule (lower text)) classify_rules = Some (classify_rules ! i)"
    unfolding find_Some_iff using assms by blast
  then show ?thesis by (simp add: classify_spec_def)
qed

lemma classify_spec_default:
  assumes "\<forall>i<length classify_rules. \<not> fst (classify_rules ! i) (lower text)"
  shows "classify_spec text = ''risk_classification''"
proof -
  have "List.find (\<lambda>rule. fst rule (lower text)) classify_rules = None"
    unfolding find_None_iff using assms by (metis in_set_conv_nth)
  then show ?thesis by (simp add: classify_spec_def)
qed

text \<open>
  The risk classification prompt lists exactly the twelve category names, one on a line
  each.
\<close>

lemma risk_categories_in_prompt:
  \<open>risk_classification_prompt =
     ''You are a financial risk analyst. Analyze the provided 10-K Risk Factors section.\<newline>''
     @ ''\<newline>''
     @ ''Classify the risks into these predefined categories (only use these exact names):\<newline>''
     @ concat (map (\<lambda>c. ''- '' @ c @ ''\<newline>'') risk_categories)
     @ ''\<newline>''
     @ ''Return a JSON object with:\<newline>''
     @ ''{\<newline>''
     @ ''  "task": "risk_classification",\<newline>''
     @ ''  "risk_classification": ["Category 1", "Category 2", ...]\<newline>''
     @ ''}\<newline>''
     @ ''\<newline>''
     @ ''Only include categories that are clearly mentioned in the text. Be precise.''\<close>
  by (simp add: risk_classification_prompt_def risk_categories_def)

lemma dict_get_obj:
  "dict_get (JObj kvs) k = Inr (case map_of kvs k of None \<Rightarrow> JNull | Some v \<Rightarrow> v)"
  by (simp add: dict_get_def dict_get_default_def split: option.splits)

lemma or_chain_first_truthy:
  "or_else (dict_get (JObj kvs) k1)
     (or_else (dict_get (JObj kvs) k2)
       (or_else (dict_get (JObj kvs) k3) (Inr (JList []))))
   = Inr (first_truthy [k1, k2, k3] kvs)"
  by (simp add: dict_get_obj or_else_def first_truthy_def split: option.splits)

lemma first_truthy_cases:
  "first_truthy keys kvs = JList [] \<or>
   (\<exists>k\<in>set keys. map_of kvs k = Some (first_truthy keys kvs) \<and> truthy (first_truthy keys kvs))"
proof (cases "List.find (\<lambda>k. case map_of kvs k of None \<Rightarrow> False | Some v \<Rightarrow> truthy v) keys")
  case None
  then show ?thesis by (simp add: first_truthy_def)
next
  case (Some k)
  then have "k \<in> set keys" and "case map_of kvs k of None \<Rightarrow> False | Some v \<Rightarrow> truthy v"
    by (auto simp: find_Some_iff)
  with Some show ?thesis by (auto simp: first_truthy_def split: option.splits)
qed

lemma format_response_risk:
  "format_response (JObj kvs) ''risk_classification''
     = Inr (JObj [(''task'', JStr ''risk_classification''),
                  (''risk_classification'',
                     first_truthy [''risk_classification'', ''categories'', ''risk_categories''] kvs)])"
  by (simp add: format_response_def or_chain_first_truthy bind_exn_def)

lemma format_response_consistency:
  "format_response (JObj kvs) ''consistency_check''
     = Inr (JObj [(''task'', JStr ''consistency_check''),
                  (''consistency_check'',
                     first_truthy [''consistency_check'', ''discussed_risks'', ''consistent_risks''] kvs)])"
  by (simp add: format_response_def or_chain_first_truthy bind_exn_def)

lemma summary_or_else:
  "or_else (dict_get (JObj kvs) ''business_summary'') (Inr (JObj kvs)) = Inr (summary_source kvs)"
  by (simp add: dict_get_obj or_else_def summary_source_def split: option.splits)

lemma format_response_summary:
  "format_response (JObj kvs) ''business_summary'' =
     (case summary_source kvs of
        JObj fs \<Rightarrow> Inr (JObj [(''task'', JStr ''business_summary''),
                             (''business_summary'', read_fields fs)])
      | _ \<Rightarrow> Inl AttributeError)"
  by (cases "summary_source kvs")
     (simp_all add: format_response_def summary_or_else bind_exn_def read_fields_def
        dict_get_default_def split: option.splits)

lemma summary_source_cases:
  "summary_source kvs = JObj kvs \<or>
   (\<exists>v. map_of kvs ''business_summary'' = Some v \<and> truthy v \<and> summary_source kvs = v)"
  by (auto simp: summary_source_def split: option.splits)

lemma format_response_non_obj:
  assumes "\<forall>kvs. parsed \<noteq> JObj kvs"
  shows "format_response parsed t = Inl AttributeError"
  using assms
  by (cases parsed)
     (simp_all add: format_response_def Let_def dict_get_def dict_get_default_def or_else_def
        bind_exn_def)

lemma format_response_summary_non_obj:
  assumes "map_of kvs ''business_summary'' = Some v" and "truthy v" and "\<forall>fs. v \<noteq> JObj fs"
  shows "format_response (JObj kvs) ''business_summary'' = Inl AttributeError"
proof -
  have "summary_source kvs = v" using assms by (simp add: summary_source_def)
  with assms(3) show ?thesis
    by (cases v) (simp_all add: format_response_summary)
qed

lemma analyze_attempt_create_fails:
  "create (get_system_prompt t) prompt = Inl e \<Longrightarrow> analyze_attempt loads create prompt t = Inl e"
  by (simp add: analyze_attempt_def bind_exn_def)

lemma analyze_attempt_content:
  "create (get_system_prompt t) prompt = Inr (Some text # rest) \<Longrightarrow>
   analyze_attempt loads create prompt t =
     bind_exn (loads text) (\<lambda>parsed.
     bind_exn (format_response parsed t) (\<lambda>formatted. Inr (dumps (Some 2) formatted)))"
  by (simp add: analyze_attempt_def bind_exn_def)

lemma analyze_on_exception:
  "analyze_attempt loads create prompt (detect_task_type prompt) = Inl e \<Longrightarrow>
   analyze loads create prompt
     = Inr (dumps None (get_fallback_response (detect_task_type prompt)))"
  by (simp add: analyze_def Let_def)

lemma analyze_on_success:
  "analyze_attempt loads create prompt (detect_task_type prompt) = Inr s \<Longrightarrow>
   analyze loads create prompt = Inr s"
  by (simp add: analyze_def Let_def)

lemma analyze_returns: "\<exists>s. analyze loads create prompt = Inr s"
  by (simp add: analyze_def Let_def split: sum.splits)

lemma process_emits:
  "\<exists>result. process loads create msg t event_queue
     = event_queue
       @ [StatusUpdate (task_id t) Working None False,
          StatusUpdate (task_id t) Working (Some ''Analyzing financial document...'') False,
          ArtifactUpdate (task_id t) ''FinancialAnalysis'' result,
          StatusUpdate (task_id t) Completed None True]"
  using analyze_returns [of loads create "get_message_text msg"]
  by (auto simp: process_def Let_def)

lemma execute_active_task:
  assumes "message context = Some msg" and "current_task context = Some t"
    and "state t \<notin> TERMINAL_STATES"
  shows "length (execute loads create fresh context event_queue) = length event_queue + 4"
  using assms process_emits [of loads create msg t event_queue]
  by (auto simp: execute_def)

section \<open>The classifier\<close>

text \<open>
  Claim C2. For every text, \<open>detect_task_type\<close> is a function of the text alone that
  follows the priority cascade on the lower-cased text: it agrees with the ordered rule
  table, it returns the result of the matching rule of lowest index, it returns
  \<open>risk_classification\<close> when no rule matches, and it does not depend on the case of
  the letters.
\<close>

theorem detect_task_type_cascade:
  "detect_task_type text = classify_spec text
   \<and> (\<forall>i<length classify_rules.
         fst (classify_rules ! i) (lower text)
         \<and> (\<forall>j<i. \<not> fst (classify_rules ! j) (lower text))
         \<longrightarrow> detect_task_type text = snd (classify_rules ! i))
   \<and> ((\<forall>i<length classify_rules. \<not> fst (classify_rules ! i) (lower text))
         \<longrightarrow> detect_task_type text = ''risk_classification'')
   \<and> detect_task_type (lower text) = detect_task_type text
   \<and> (\<forall>text'. lower text' = lower text \<longrightarrow> detect_task_type text' = detect_task_type text)"
proof (intro conjI allI impI)
  show "detect_task_type text = classify_spec text" by (rule detect_eq_spec)
next
  fix i
  assume "i < length classify_rules"
    and "fst (classify_rules ! i) (lower text)
         \<and> (\<forall>j<i. \<not> fst (classify_rules ! j) (lower text))"
  then show "detect_task_type text = snd (classify_rules ! i)"
    by (simp add: detect_eq_spec classify_spec_lowest)
next
  assume "\<forall>i<length classify_rules. \<not> fst (classify_rules ! i) (lower text)"
  then show "detect_task_type text = ''risk_classification''"
    by (simp add: detect_eq_spec classify_spec_default)
next
  show "detect_task_type (lower text) = detect_task_type text"
    by (simp add: detect_task_type_def lower_idem)
next
  fix text'
  assume "lower text' = lower text"
  then show "detect_task_type text' = detect_task_type text"
    by (simp add: detect_task_type_def)
qed

text \<open>
  The scenario of a text with \<open>business\<close> and \<open>section 1\<close> and no keyword of a higher
  rule: rule 5 (index 4) is the first to match, in either spelling of the text.
\<close>

theorem detect_task_type_cascade_witness:
  "(4::nat) < length classify_rules
   \<and> fst (classify_rules ! 4) (lower ''Describe the BUSINESS of Section 1'')
   \<and> \<not> fst (classify_rules ! 0) (lower ''Describe the BUSINESS of Section 1'')
   \<and> \<not> fst (classify_rules ! 1) (lower ''Describe the BUSINESS of Section 1'')
   \<and> \<not> fst (classify_rules ! 2) (lower ''Describe the BUSINESS of Section 1'')
   \<and> \<not> fst (classify_rules ! 3) (lower ''Describe the BUSINESS of Section 1'')
   \<and> lower ''describe the business of SECTION 1'' = lower ''Describe the BUSINESS of Section 1''
   \<and> detect_task_type ''Describe the BUSINESS of Section 1'' = ''business_summary''
   \<and> detect_task_type ''describe the business of SECTION 1'' = ''business_summary''
   \<and> classify_spec ''Describe the BUSINESS of Section 1'' = ''business_summary''"
proof -
  let ?t = "''Describe the BUSINESS of Section 1''"
  have len: "(4::nat) < length classify_rules" by (simp add: classify_rules_def)
  have r4: "fst (classify_rules ! 4) (lower ?t)" by code_simp
  have r0: "\<not> fst (classify_rules ! 0) (lower ?t)" by code_simp
  have r1: "\<not> fst (classify_rules ! 1) (lower ?t)" by code_simp
  have r2: "\<not> fst (classify_rules ! 2) (lower ?t)" by code_simp
  have r3: "\<not> fst (classify_rules ! 3) (lower ?t)" by code_simp
  have lo: "lower ''describe the business of SECTION 1'' = lower ?t" by code_simp
  have below: "\<forall>j<4. \<not> fst (classify_rules ! j) (lower ?t)"
  proof (intro allI impI)
    fix j :: nat
    assume "j < 4"
    then have "j = 0 \<or> j = 1 \<or> j = 2 \<or> j = 3" by arith
    then show "\<not> fst (classify_rules ! j) (lower ?t)" using r0 r1 r2 r3 by auto
  qed
  have s4: "snd (classify_rules ! 4) = ''business_summary''" by (simp add: classify_rules_def)
  note c = detect_task_type_cascade [of ?t]
  from c len r4 below s4 have d: "detect_task_type ?t = ''business_summary''" by metis
  from c lo d
  have d': "detect_task_type ''describe the business of SECTION 1'' = ''business_summary''"
    by metis
  from c d have "classify_spec ?t = ''business_summary''" by metis
  with len r4 r0 r1 r2 r3 lo d d' show ?thesis by blast
qed

section \<open>Normalization\<close>

text \<open>
  Claim C3, as the code has it. For every parsed object, \<open>format_response\<close> for
  \<open>risk_classification\<close> and for \<open>consistency_check\<close> returns the task and one payload:
  the value of the first candidate key whose value is truthy (present and none of
  \<open>null\<close>, \<open>false\<close>, \<open>0\<close>, the empty string, the empty list, the empty object), in the
  order \<open>risk_classification\<close>, \<open>categories\<close>, \<open>risk_categories\<close>, respectively
  \<open>consistency_check\<close>, \<open>discussed_risks\<close>, \<open>consistent_risks\<close>; the empty list when no
  candidate key has a truthy value.
\<close>

theorem format_response_first_truthy:
  "format_response (JObj kvs) ''risk_classification''
     = Inr (JObj [(''task'', JStr ''risk_classification''),
                  (''risk_classification'',
                     first_truthy [''risk_classification'', ''categories'', ''risk_categories''] kvs)])
   \<and> format_response (JObj kvs) ''consistency_check''
     = Inr (JObj [(''task'', JStr ''consistency_check''),
                  (''consistency_check'',
                     first_truthy [''consistency_check'', ''discussed_risks'', ''consistent_risks''] kvs)])"
  by (simp add: format_response_risk format_response_consistency)

text \<open>
  The scenario of a model output \<open>{"categories": ["Market Risk"]}\<close> for a risk
  classification.
\<close>

theorem format_response_first_truthy_witness:
  "format_response (JObj [(''categories'', JList [JStr ''Market Risk''])]) ''risk_classification''
     = Inr (JObj [(''task'', JStr ''risk_classification''),
                  (''risk_classification'', JList [JStr ''Market Risk''])])"
  using format_response_first_truthy [of "[(''categories'', JList [JStr ''Market Risk''])]"]
  by (simp add: first_truthy_def)

text \<open>
  Claim C3 as it is written takes the first key that is present. The object
  \<open>{"risk_classification": [], "categories": ["Market Risk"]}\<close> has
  \<open>risk_classification\<close> present with an empty list, which would be the payload; the
  code passes it over, since an empty list is not truthy, and returns the value of
  \<open>categories\<close>.
\<close>

theorem format_response_first_present_counterexample:
  "format_response
     (JObj [(''risk_classification'', JList []), (''categories'', JList [JStr ''Market Risk''])])
     ''risk_classification''
   = Inr (JObj [(''task'', JStr ''risk_classification''),
                (''risk_classification'', JList [JStr ''Market Risk''])])
   \<and> spec_first_present [''risk_classification'', ''categories'', ''risk_categories'']
        [(''risk_classification'', JList []), (''categories'', JList [JStr ''Market Risk''])]
     = JList []
   \<and> format_response
     (JObj [(''risk_classification'', JList []), (''categories'', JList [JStr ''Market Risk''])])
     ''risk_classification''
   \<noteq> Inr (JObj [(''task'', JStr ''risk_classification''),
                (''risk_classification'',
                   spec_first_present [''risk_classification'', ''categories'', ''risk_categories'']
                     [(''risk_classification'', JList []),
                      (''categories'', JList [JStr ''Market Risk''])])])"
  by (simp add: format_response_risk first_truthy_def spec_first_present_def)

text \<open>
  Claim C4, as the code has it. For every parsed object under \<open>business_summary\<close>,
  the summary is read from the nested \<open>business_summary\<close> value when that value is
  present and truthy, and from the top-level object otherwise; when the value read from
  is an object, \<open>format_response\<close> returns the task and the record of \<open>industry\<close>,
  \<open>products\<close> and \<open>geography\<close> taken from it, with \<open>N/A\<close> for each field it lacks.
\<close>

theorem format_response_business_summary:
  "summary_source kvs = JObj fs \<Longrightarrow>
     format_response (JObj kvs) ''business_summary''
       = Inr (JObj [(''task'', JStr ''business_summary''),
                    (''business_summary'', read_fields fs)])"
  by (simp add: format_response_summary)

text \<open>The scenario of a model output \<open>{"industry": "Tech"}\<close> for a business summary.\<close>

theorem format_response_business_summary_witness:
  "summary_source [(''industry'', JStr ''Tech'')] = JObj [(''industry'', JStr ''Tech'')]
   \<and> format_response (JObj [(''industry'', JStr ''Tech'')]) ''business_summary''
     = Inr (JObj [(''task'', JStr ''business_summary''),
                  (''business_summary'',
                     JObj [(''industry'', JStr ''Tech''), (''products'', JStr ''N/A''),
                           (''geography'', JStr ''N/A'')])])"
proof -
  have src: "summary_source [(''industry'', JStr ''Tech'')] = JObj [(''industry'', JStr ''Tech'')]"
    by (simp add: summary_source_def)
  from format_response_business_summary [OF src] src show ?thesis
    by (simp add: read_fields_def)
qed

text \<open>
  Claim C4 as it is written uses the nested object whenever it is present. In
  \<open>{"business_summary": {}, "industry": "Tech"}\<close> the nested object is present and
  empty, so all three fields would be \<open>N/A\<close>; the code reads the top-level object
  instead, since an empty object is not truthy, and returns the industry \<open>Tech\<close>.
\<close>

theorem format_response_business_summary_counterexample:
  "format_response (JObj [(''business_summary'', JObj []), (''industry'', JStr ''Tech'')])
     ''business_summary''
   = Inr (JObj [(''task'', JStr ''business_summary''),
                (''business_summary'',
                   JObj [(''industry'', JStr ''Tech''), (''products'', JStr ''N/A''),
                         (''geography'', JStr ''N/A'')])])
   \<and> spec_summary_source [(''business_summary'', JObj []), (''industry'', JStr ''Tech'')]
     = JObj []
   \<and> read_fields []
     = JObj [(''industry'', JStr ''N/A''), (''products'', JStr ''N/A''),
             (''geography'', JStr ''N/A'')]
   \<and> format_response (JObj [(''business_summary'', JObj []), (''industry'', JStr ''Tech'')])
     ''business_summary''
   \<noteq> (case spec_summary_source [(''business_summary'', JObj []), (''industry'', JStr ''Tech'')] of
        JObj fs \<Rightarrow> Inr (JObj [(''task'', JStr ''business_summary''),
                             (''business_summary'', read_fields fs)])
      | _ \<Rightarrow> Inl AttributeError)"
  by (simp add: format_response_summary summary_source_def spec_summary_source_def
        read_fields_def)

text \<open>
  Claim C5. For every parsed object and each of the three task types, the object that
  \<open>format_response\<close> returns has exactly the two keys \<open>task\<close>, whose value is the task
  type, and the key named as the task type; no key of the input is copied. The only
  inputs for which it returns no object are those of a business summary whose nested
  \<open>business_summary\<close> value is truthy and not an object, where it raises.
\<close>

theorem format_response_exact_keys:
  assumes "t \<in> set task_types"
  shows "case format_response (JObj kvs) t of
           Inr r \<Rightarrow> (\<exists>payload. r = JObj [(''task'', JStr t), (t, payload)])
         | Inl e \<Rightarrow> t = ''business_summary'' \<and>
             (\<exists>v. map_of kvs ''business_summary'' = Some v \<and> truthy v \<and> (\<forall>fs. v \<noteq> JObj fs))"
proof -
  from assms consider "t = ''risk_classification''" | "t = ''business_summary''"
    | "t = ''consistency_check''"
    by (auto simp: task_types_def)
  then show ?thesis
  proof cases
    case 1
    then show ?thesis by (simp add: format_response_risk)
  next
    case 2
    show ?thesis
    proof (cases "summary_source kvs")
      case (JObj fs)
      with 2 show ?thesis by (simp add: format_response_summary)
    qed (use 2 summary_source_cases [of kvs] in \<open>auto simp: format_response_summary\<close>)
  next
    case 3
    then show ?thesis by (simp add: format_response_consistency)
  qed
qed

theorem format_response_exact_keys_witness:
  "''consistency_check'' \<in> set task_types
   \<and> (\<exists>payload.
        format_response
          (JObj [(''task'', JStr ''other''), (''discussed_risks'', JList [JStr ''inflation'']),
                 (''notes'', JInt 7)])
          ''consistency_check''
        = Inr (JObj [(''task'', JStr ''consistency_check''), (''consistency_check'', payload)]))"
proof -
  have m: "''consistency_check'' \<in> set task_types" by (simp add: task_types_def)
  from format_response_exact_keys [OF m,
      of "[(''task'', JStr ''other''), (''discussed_risks'', JList [JStr ''inflation'']),
           (''notes'', JInt 7)]"] m
  show ?thesis by (auto split: sum.splits)
qed

section \<open>The analyzer\<close>

text \<open>
  Claim C1. For every prompt, when the call of the generation service raises, or when
  the text it returns does not parse as JSON, \<open>analyze\<close> raises nothing and returns the
  serialization of the fallback result of the task type classified from the prompt.
\<close>

theorem analyze_fallback_on_failure:
  assumes "(\<exists>e. create (get_system_prompt (detect_task_type prompt)) prompt = Inl e)
         \<or> (\<exists>text rest e. create (get_system_prompt (detect_task_type prompt)) prompt
                             = Inr (Some text # rest) \<and> loads text = Inl e)"
  shows "analyze loads create prompt
           = Inr (dumps None (get_fallback_response (detect_task_type prompt)))"
proof -
  from assms have "\<exists>e. analyze_attempt loads create prompt (detect_task_type prompt) = Inl e"
  proof
    assume "\<exists>e. create (get_system_prompt (detect_task_type prompt)) prompt = Inl e"
    then show ?thesis by (auto simp: analyze_attempt_create_fails)
  next
    assume "\<exists>text rest e. create (get_system_prompt (detect_task_type prompt)) prompt
                             = Inr (Some text # rest) \<and> loads text = Inl e"
    then show ?thesis by (auto simp: analyze_attempt_content bind_exn_def)
  qed
  then show ?thesis by (auto simp: analyze_on_exception)
qed

text \<open>
  The scenario of the prompt \<open>Please perform Task 1 risk classification on this
  filing...\<close> with a service that fails, and a prompt for a business summary with a
  service whose answer is not JSON.
\<close>

theorem analyze_fallback_on_failure_witness:
  "(\<exists>e. (\<lambda>sp p. Inl APIError :: exn + string option list)
          (get_system_prompt
             (detect_task_type ''Please perform Task 1 risk classification on this filing...''))
          ''Please perform Task 1 risk classification on this filing...'' = Inl e)
   \<and> analyze (\<lambda>text. Inr JNull) (\<lambda>sp p. Inl APIError)
       ''Please perform Task 1 risk classification on this filing...''
     = Inr (dumps None
         (JObj [(''task'', JStr ''risk_classification''),
                (''risk_classification'', JList [JStr ''Market Risk'', JStr ''Operational Risk''])]))
   \<and> (\<exists>text rest e.
        (\<lambda>sp p. Inr [Some ''I cannot answer''] :: exn + string option list)
          (get_system_prompt (detect_task_type ''Task 2''))
          ''Task 2'' = Inr (Some text # rest)
        \<and> (\<lambda>text. Inl JSONDecodeError :: exn + json) text = Inl e)
   \<and> analyze (\<lambda>text. Inl JSONDecodeError) (\<lambda>sp p. Inr [Some ''I cannot answer'']) ''Task 2''
     = Inr (dumps None
         (JObj [(''task'', JStr ''business_summary''),
                (''business_summary'',
                   JObj [(''industry'', JStr ''Unable to determine''),
                         (''products'', JStr ''Unable to determine''),
                         (''geography'', JStr ''Unable to determine'')])]))"
proof -
  let ?p = "''Please perform Task 1 risk classification on this filing...''"
  have d1: "detect_task_type ?p = ''risk_classification''" by code_simp
  have d2: "detect_task_type ''Task 2'' = ''business_summary''" by code_simp
  have h1: "(\<exists>e. (\<lambda>sp p. Inl APIError :: exn + string option list)
          (get_system_prompt (detect_task_type ?p)) ?p = Inl e)"
    by simp
  have h2: "(\<exists>text rest e.
        (\<lambda>sp p. Inr [Some ''I cannot answer''] :: exn + string option list)
          (get_system_prompt (detect_task_type ''Task 2''))
          ''Task 2'' = Inr (Some text # rest)
        \<and> (\<lambda>text. Inl JSONDecodeError :: exn + json) text = Inl e)"
    by simp
  have a1: "analyze (\<lambda>text. Inr JNull) (\<lambda>sp p. Inl APIError) ?p
     = Inr (dumps None (get_fallback_response (detect_task_type ?p)))"
    by (rule analyze_fallback_on_failure) (rule disjI1, rule h1)
  have a2: "analyze (\<lambda>text. Inl JSONDecodeError) (\<lambda>sp p. Inr [Some ''I cannot answer'']) ''Task 2''
     = Inr (dumps None (get_fallback_response (detect_task_type ''Task 2'')))"
    by (rule analyze_fallback_on_failure) (rule disjI2, rule h2)
  from a1 a2 h1 h2 show ?thesis
    by (simp add: d1 d2 get_fallback_response_def)
qed

text \<open>
  Claim C6. The fallback result is fixed per task type: the list of \<open>Market Risk\<close> and
  \<open>Operational Risk\<close> for a risk classification, the record with three times
  \<open>Unable to determine\<close> for a business summary, the empty list for a consistency
  check. Whatever the guarded block of \<open>analyze\<close> raises, the fallback is that of the
  task type classified from the prompt before the attempt.
\<close>

theorem fallback_table:
  "get_fallback_response ''risk_classification''
     = JObj [(''task'', JStr ''risk_classification''),
             (''risk_classification'', JList [JStr ''Market Risk'', JStr ''Operational Risk''])]
   \<and> get_fallback_response ''business_summary''
     = JObj [(''task'', JStr ''business_summary''),
             (''business_summary'',
                JObj [(''industry'', JStr ''Unable to determine''),
                      (''products'', JStr ''Unable to determine''),
                      (''geography'', JStr ''Unable to determine'')])]
   \<and> get_fallback_response ''consistency_check''
     = JObj [(''task'', JStr ''consistency_check''), (''consistency_check'', JList [])]
   \<and> (\<forall>e. analyze_attempt loads create prompt (detect_task_type prompt) = Inl e \<longrightarrow>
         analyze loads create prompt
           = Inr (dumps None (get_fallback_response (detect_task_type prompt))))"
  by (simp add: get_fallback_response_def analyze_on_exception)

theorem fallback_table_witness:
  "analyze_attempt (\<lambda>text. Inr JNull) (\<lambda>sp p. Inr []) ''Task 3'' (detect_task_type ''Task 3'')
     = Inl IndexError
   \<and> analyze (\<lambda>text. Inr JNull) (\<lambda>sp p. Inr []) ''Task 3''
     = Inr (dumps None
         (JObj [(''task'', JStr ''consistency_check''), (''consistency_check'', JList [])]))"
proof -
  have d: "detect_task_type ''Task 3'' = ''consistency_check''" by code_simp
  have h: "analyze_attempt (\<lambda>text. Inr JNull) (\<lambda>sp p. Inr []) ''Task 3''
             (detect_task_type ''Task 3'') = Inl IndexError"
    by (simp add: analyze_attempt_def bind_exn_def)
  from fallback_table [of "\<lambda>text. Inr JNull" "\<lambda>sp p. Inr []" "''Task 3''"] h
  have "analyze (\<lambda>text. Inr JNull) (\<lambda>sp p. Inr []) ''Task 3''
     = Inr (dumps None (get_fallback_response (detect_task_type ''Task 3'')))"
    by blast
  with h show ?thesis by (simp add: d get_fallback_response_def)
qed

text \<open>
  Claim C10. For every prompt, when the service returns text that parses as JSON to a
  value that is not an object, or, for a business summary, to an object whose
  \<open>business_summary\<close> value is truthy and not an object, the normalization raises
  \<open>AttributeError\<close> inside the guarded block, and \<open>analyze\<close> returns the serialization
  of the fallback result of the classified task type.
\<close>

theorem analyze_fallback_on_bad_shape:
  assumes "create (get_system_prompt (detect_task_type prompt)) prompt = Inr (Some text # rest)"
    and "loads text = Inr parsed"
    and "(\<forall>kvs. parsed \<noteq> JObj kvs)
         \<or> (detect_task_type prompt = ''business_summary'' \<and>
            (\<exists>kvs v. parsed = JObj kvs \<and> map_of kvs ''business_summary'' = Some v \<and>
                     truthy v \<and> (\<forall>fs. v \<noteq> JObj fs)))"
  shows "format_response parsed (detect_task_type prompt) = Inl AttributeError
         \<and> analyze loads create prompt
           = Inr (dumps None (get_fallback_response (detect_task_type prompt)))"
proof -
  from assms(3) have r: "format_response parsed (detect_task_type prompt) = Inl AttributeError"
    by (auto simp: format_response_non_obj format_response_summary_non_obj)
  with assms(1,2) have "analyze_attempt loads create prompt (detect_task_type prompt)
      = Inl AttributeError"
    by (simp add: analyze_attempt_content bind_exn_def)
  with r show ?thesis by (simp add: analyze_on_exception)
qed

theorem analyze_fallback_on_bad_shape_witness:
  "analyze (\<lambda>text. Inr (JList [JInt 1, JInt 2])) (\<lambda>sp p. Inr [Some ''[1, 2]'']) ''Task 1''
     = Inr (dumps None
         (JObj [(''task'', JStr ''risk_classification''),
                (''risk_classification'', JList [JStr ''Market Risk'', JStr ''Operational Risk''])]))
   \<and> analyze (\<lambda>text. Inr (JObj [(''business_summary'', JStr ''A software company'')]))
        (\<lambda>sp p. Inr [Some ''model output'']) ''Task 2''
     = Inr (dumps None
         (JObj [(''task'', JStr ''business_summary''),
                (''business_summary'',
                   JObj [(''industry'', JStr ''Unable to determine''),
                         (''products'', JStr ''Unable to determine''),
                         (''geography'', JStr ''Unable to determine'')])]))"
proof -
  have d1: "detect_task_type ''Task 1'' = ''risk_classification''" by code_simp
  have d2: "detect_task_type ''Task 2'' = ''business_summary''" by code_simp
  have s1: "\<forall>kvs. JList [JInt 1, JInt 2] \<noteq> JObj kvs" by simp
  have s2: "detect_task_type ''Task 2'' = ''business_summary'' \<and>
            (\<exists>kvs v. JObj [(''business_summary'', JStr ''A software company'')] = JObj kvs
               \<and> map_of kvs ''business_summary'' = Some v \<and> truthy v \<and> (\<forall>fs. v \<noteq> JObj fs))"
    by (simp add: d2)
  have a1: "analyze (\<lambda>text. Inr (JList [JInt 1, JInt 2])) (\<lambda>sp p. Inr [Some ''[1, 2]'']) ''Task 1''
     = Inr (dumps None (get_fallback_response (detect_task_type ''Task 1'')))"
    using analyze_fallback_on_bad_shape
      [of "\<lambda>sp p. Inr [Some ''[1, 2]'']" "''Task 1''" "''[1, 2]''" "[]"
          "\<lambda>text. Inr (JList [JInt 1, JInt 2])" "JList [JInt 1, JInt 2]"] s1
    by simp
  have a2: "analyze (\<lambda>text. Inr (JObj [(''business_summary'', JStr ''A software company'')]))
        (\<lambda>sp p. Inr [Some ''model output'']) ''Task 2''
     = Inr (dumps None (get_fallback_response (detect_task_type ''Task 2'')))"
    using analyze_fallback_on_bad_shape
      [of "\<lambda>sp p. Inr [Some ''model output'']" "''Task 2''" "''model output''" "[]"
          "\<lambda>text. Inr (JObj [(''business_summary'', JStr ''A software company'')])"
          "JObj [(''business_summary'', JStr ''A software company'')]"] s2
    by simp
  from a1 a2 show ?thesis by (simp add: d1 d2 get_fallback_response_def)
qed

text \<open>
  Claim C8, as the code has it. For every parsed object under \<open>risk_classification\<close>,
  \<open>analyze\<close> returns the serialization, indented by two spaces, of the task and the
  payload that the normalization selects, passed through as the service gave it and with
  no validation. The payload is a list of names from the twelve categories whenever
  every value that the object holds under the three candidate keys is one.
\<close>

theorem analyze_risk_payload:
  assumes "detect_task_type prompt = ''risk_classification''"
    and "create (get_system_prompt ''risk_classification'') prompt = Inr (Some text # rest)"
    and "loads text = Inr (JObj kvs)"
  shows "analyze loads create prompt
           = Inr (dumps (Some 2)
               (JObj [(''task'', JStr ''risk_classification''),
                      (''risk_classification'',
                         first_truthy [''risk_classification'', ''categories'', ''risk_categories''] kvs)]))
         \<and> ((\<forall>k\<in>set [''risk_classification'', ''categories'', ''risk_categories''].
                \<forall>v. map_of kvs k = Some v \<longrightarrow> risk_schema v)
              \<longrightarrow> risk_schema
                    (first_truthy [''risk_classification'', ''categories'', ''risk_categories''] kvs))"
proof
  let ?keys = "[''risk_classification'', ''categories'', ''risk_categories'']"
  let ?out = "dumps (Some 2)
      (JObj [(''task'', JStr ''risk_classification''),
             (''risk_classification'', first_truthy ?keys kvs)])"
  have "analyze_attempt loads create prompt (detect_task_type prompt) = Inr ?out"
    using assms by (simp add: analyze_attempt_content bind_exn_def format_response_risk)
  then show "analyze loads create prompt = Inr ?out"
    by (rule analyze_on_success)
next
  let ?keys = "[''risk_classification'', ''categories'', ''risk_categories'']"
  show "(\<forall>k\<in>set ?keys. \<forall>v. map_of kvs k = Some v \<longrightarrow> risk_schema v)
              \<longrightarrow> risk_schema (first_truthy ?keys kvs)"
  proof
    assume a: "\<forall>k\<in>set ?keys. \<forall>v. map_of kvs k = Some v \<longrightarrow> risk_schema v"
    from first_truthy_cases [of ?keys kvs] show "risk_schema (first_truthy ?keys kvs)"
    proof
      assume "first_truthy ?keys kvs = JList []"
      then show ?thesis by simp
    next
      assume "\<exists>k\<in>set ?keys. map_of kvs k = Some (first_truthy ?keys kvs)
                \<and> truthy (first_truthy ?keys kvs)"
      with a show ?thesis by blast
    qed
  qed
qed

theorem analyze_risk_payload_witness:
  "detect_task_type ''Task 1'' = ''risk_classification''
   \<and> analyze
        (\<lambda>text. Inr (JObj [(''categories'', JList [JStr ''Market Risk'', JStr ''Geopolitical Risk''])]))
        (\<lambda>sp p. Inr [Some ''model output'']) ''Task 1''
     = Inr (dumps (Some 2)
         (JObj [(''task'', JStr ''risk_classification''),
                (''risk_classification'', JList [JStr ''Market Risk'', JStr ''Geopolitical Risk''])]))
   \<and> risk_schema (JList [JStr ''Market Risk'', JStr ''Geopolitical Risk''])"
proof -
  let ?kvs = "[(''categories'', JList [JStr ''Market Risk'', JStr ''Geopolitical Risk''])]"
  have d: "detect_task_type ''Task 1'' = ''risk_classification''" by code_simp
  have v: "\<forall>k\<in>set [''risk_classification'', ''categories'', ''risk_categories''].
             \<forall>v. map_of ?kvs k = Some v \<longrightarrow> risk_schema v"
    by (simp add: risk_categories_def)
  have f: "first_truthy [''risk_classification'', ''categories'', ''risk_categories''] ?kvs
             = JList [JStr ''Market Risk'', JStr ''Geopolitical Risk'']"
    by (simp add: first_truthy_def)
  from analyze_risk_payload
         [of "''Task 1''" "\<lambda>sp p. Inr [Some ''model output'']" "''model output''" "[]"
             "\<lambda>text. Inr (JObj ?kvs)" ?kvs] d v f
  show ?thesis by simp
qed

text \<open>
  Claim C8 as it is written promises names from the closed set. A service that answers
  a risk classification with \<open>{"risk_classification": ["Weather Risk"]}\<close> gets its list
  back unchanged, and \<open>Weather Risk\<close> is none of the twelve names.
\<close>

theorem analyze_risk_schema_counterexample:
  "analyze (\<lambda>text. Inr (JObj [(''risk_classification'', JList [JStr ''Weather Risk''])]))
           (\<lambda>sp p. Inr [Some ''model output''])
           ''Task 1''
     = Inr (dumps (Some 2)
         (JObj [(''task'', JStr ''risk_classification''),
                (''risk_classification'', JList [JStr ''Weather Risk''])]))
   \<and> \<not> risk_schema (JList [JStr ''Weather Risk''])"
proof
  let ?out = "dumps (Some 2)
      (JObj [(''task'', JStr ''risk_classification''),
             (''risk_classification'', JList [JStr ''Weather Risk''])])"
  have d: "detect_task_type ''Task 1'' = ''risk_classification''" by code_simp
  have "analyze_attempt (\<lambda>text. Inr (JObj [(''risk_classification'', JList [JStr ''Weather Risk''])]))
           (\<lambda>sp p. Inr [Some ''model output'']) ''Task 1'' (detect_task_type ''Task 1'')
     = Inr ?out"
    by (simp add: d analyze_attempt_content bind_exn_def format_response_risk first_truthy_def)
  then show "analyze (\<lambda>text. Inr (JObj [(''risk_classification'', JList [JStr ''Weather Risk''])]))
           (\<lambda>sp p. Inr [Some ''model output'']) ''Task 1'' = Inr ?out"
    by (rule analyze_on_success)
next
  show "\<not> risk_schema (JList [JStr ''Weather Risk''])"
    by (simp add: risk_categories_def)
qed

text \<open>
  Claim C9. Every string that \<open>analyze\<close> returns would be indented by two spaces. On
  the fallback path it is not: for the prompt \<open>Task 1\<close> and a service that fails, the
  result is the fallback object on one line, which differs from its serialization with
  an indentation of two spaces.
\<close>

theorem fallback_not_indented:
  \<open>analyze (\<lambda>text. Inl JSONDecodeError) (\<lambda>sp p. Inl APIError) ''Task 1''
     = Inr ''{"task": "risk_classification", "risk_classification": ["Market Risk", "Operational Risk"]}''
   \<and> analyze (\<lambda>text. Inl JSONDecodeError) (\<lambda>sp p. Inl APIError) ''Task 1''
     \<noteq> Inr (dumps (Some 2) (get_fallback_response ''risk_classification''))\<close>
  by code_simp

section \<open>The executor\<close>

text \<open>
  Claim C7. For every inbound message whose task exists and is in one of the states
  completed, failed, canceled or rejected, \<open>execute\<close> returns with the event queue as
  it found it: no status update, no artifact, no change of the task.
\<close>

theorem execute_terminal_ignored:
  assumes "current_task context = Some t"
    and "state t \<in> {Completed, Failed, Canceled, Rejected}"
  shows "execute loads create fresh context event_queue = event_queue"
  using assms by (auto simp: execute_def TERMINAL_STATES_def split: option.splits)

theorem execute_terminal_ignored_witness:
  "current_task \<lparr>message = Some [''Task 1''],
                 current_task = Some \<lparr>task_id = ''t1'', context_id = ''c1'', state = Failed\<rparr>\<rparr>
     = Some \<lparr>task_id = ''t1'', context_id = ''c1'', state = Failed\<rparr>
   \<and> state \<lparr>task_id = ''t1'', context_id = ''c1'', state = Failed\<rparr>
       \<in> {Completed, Failed, Canceled, Rejected}
   \<and> execute (\<lambda>text. Inr JNull) (\<lambda>sp p. Inl APIError)
        \<lparr>task_id = ''t2'', context_id = ''c2'', state = Unknown\<rparr>
        \<lparr>message = Some [''Task 1''],
         current_task = Some \<lparr>task_id = ''t1'', context_id = ''c1'', state = Failed\<rparr>\<rparr>
        [TaskEvent \<lparr>task_id = ''t0'', context_id = ''c0'', state = Submitted\<rparr>]
     = [TaskEvent \<lparr>task_id = ''t0'', context_id = ''c0'', state = Submitted\<rparr>]"
proof -
  let ?t = "\<lparr>task_id = ''t1'', context_id = ''c1'', state = Failed\<rparr>"
  let ?c = "\<lparr>message = Some [''Task 1''], current_task = Some ?t\<rparr>"
  have h1: "current_task ?c = Some ?t" by simp
  have h2: "state ?t \<in> {Completed, Failed, Canceled, Rejected}" by simp
  from execute_terminal_ignored [OF h1 h2] h1 h2 show ?thesis by simp
qed

end
